theory Spec2Isabelle
  imports Complex_Main
begin

section \<open>Python strings\<close>

text \<open>
  Strings are lists of 8-bit characters; the model covers ASCII text. The helpers
  below are the built-in string operations that \<open>apply.py\<close> uses: the operator
  \<open>in\<close> on strings, \<open>str.lower\<close>, \<open>str.strip\<close>, \<open>str.replace(c, '')\<close> for a one
  character \<open>c\<close>, \<open>str.join\<close> and \<open>str.split\<close>.
\<close>

fun startswith :: "string \<Rightarrow> string \<Rightarrow> bool" where
  "startswith s [] = True"
| "startswith [] (p # ps) = False"
| "startswith (c # cs) (p # ps) = (c = p \<and> startswith cs ps)"

text \<open>\<open>py_in sub s\<close> is Python's \<open>sub in s\<close>.\<close>

fun py_in :: "string \<Rightarrow> string \<Rightarrow> bool" where
  "py_in sub [] = (sub = [])"
| "py_in sub (c # cs) = (startswith (c # cs) sub \<or> py_in sub cs)"

definition ascii_uppercase :: string where
  "ascii_uppercase = ''ABCDEFGHIJKLMNOPQRSTUVWXYZ''"

definition ascii_lowercase :: string where
  "ascii_lowercase = ''abcdefghijklmnopqrstuvwxyz''"

definition lower_char :: "char \<Rightarrow> char" where
  "lower_char c =
     (case map_of (zip ascii_uppercase ascii_lowercase) c of Some d \<Rightarrow> d | None \<Rightarrow> c)"

definition lower :: "string \<Rightarrow> string" where
  "lower s = map lower_char s"

text \<open>
  The ASCII characters for which \<open>str.isspace\<close> holds: tab, line feed, vertical
  tab, form feed, carriage return, the four separators 28..31 and the space.
\<close>

definition whitespace :: "char list" where
  "whitespace =
     [CHR 0x09, CHR 0x0A, CHR 0x0B, CHR 0x0C, CHR 0x0D, CHR 0x1C, CHR 0x1D, CHR 0x1E,
      CHR 0x1F, CHR '' '']"

definition isspace :: "char \<Rightarrow> bool" where
  "isspace c = (c \<in> set whitespace)"

definition strip :: "string \<Rightarrow> string" where
  "strip s = rev (dropWhile isspace (rev (dropWhile isspace s)))"

text \<open>\<open>remove_char c s\<close> is \<open>s.replace(c, '')\<close> for a single character \<open>c\<close>.\<close>

definition remove_char :: "char \<Rightarrow> string \<Rightarrow> string" where
  "remove_char c s = filter (\<lambda>x. x \<noteq> c) s"

fun join :: "string \<Rightarrow> string list \<Rightarrow> string" where
  "join sep [] = []"
| "join sep [x] = x"
| "join sep (x # y # ys) = x @ sep @ join sep (y # ys)"


section \<open>Configuration\<close>

text \<open>The dataclass \<open>BotConfig\<close>, field by field.\<close>

record BotConfig =
  load_delay :: real
  resume_path :: string
  phone :: string
  address :: string
  city :: string
  postal :: string
  state :: string
  github :: string
  linkedin :: string
  university :: string
  python_exp :: string
  javascript_exp :: string
  java_exp :: string
  aws_exp :: string
  django_exp :: string
  analysis_exp :: string
  teaching_exp :: string
  programming_exp :: string
  default_exp :: string
  salary :: string
  work_authorized :: string
  education :: string
  sponsorship_needed :: string
  commute_willing :: string
  commute_willing_alt :: string
  preferred_shift :: string
  disability_status :: string
  dbs_check :: string
  criminal_record :: string
  valid_cert :: string
  gender :: string
  available_hours :: string
  interview_availability :: string
  default_unknown_answer :: string

text \<open>The exceptions that configuration loading raises, with their messages.\<close>

datatype config_error = ValueError string | FileNotFoundError string

text \<open>
  What the configuration code reads from outside the program: the process
  environment (\<open>os.getenv\<close>), the file system as \<open>pathlib.Path.exists\<close> and
  \<open>Path.is_file\<close> see it, \<open>os.path.abspath\<close>, and the two built-in conversions
  of a string: \<open>float\<close>, whose result for a string it cannot read is the
  exception it raises, and \<open>int\<close>, for which \<open>None\<close> is its \<open>ValueError\<close>. Which
  strings the interpreter reads as numbers (signs, underscores, white space,
  digits of other scripts, a limit on the number of digits) is thus left open,
  and what is proved holds for each interpreter.
\<close>

record host =
  environ :: "string \<Rightarrow> string option"
  path_exists :: "string \<Rightarrow> bool"
  path_is_file :: "string \<Rightarrow> bool"
  abspath :: "string \<Rightarrow> string"
  float_of :: "string \<Rightarrow> config_error + real"
  int_of :: "string \<Rightarrow> int option"

definition getenv :: "host \<Rightarrow> string \<Rightarrow> string \<Rightarrow> string" where
  "getenv h key dflt = (case environ h key of Some v \<Rightarrow> v | None \<Rightarrow> dflt)"

definition required_fields :: "(string \<times> (BotConfig \<Rightarrow> string)) list" where
  "required_fields =
     [(''phone'', phone), (''address'', address), (''city'', city),
      (''postal'', postal), (''state'', state)]"

definition validate_required_fields :: "BotConfig \<Rightarrow> config_error + unit" where
  "validate_required_fields c =
     (let missing_fields = map fst (filter (\<lambda>(name, get). get c = []) required_fields)
      in if missing_fields \<noteq> []
         then Inl (ValueError (''Missing required configuration fields: '' @ join '', '' missing_fields))
         else Inr ())"

text \<open>
  The extension check of \<open>_validate_file_paths\<close> only logs a warning; it is left
  out, as all logging is.
\<close>

definition validate_file_paths :: "host \<Rightarrow> BotConfig \<Rightarrow> config_error + unit" where
  "validate_file_paths h c =
     (if \<not> path_exists h (resume_path c)
      then Inl (FileNotFoundError (''Resume file not found: '' @ resume_path c))
      else if \<not> path_is_file h (resume_path c)
      then Inl (ValueError (''Resume path is not a file: '' @ resume_path c))
      else Inr ())"

definition experience_fields :: "(string \<times> (BotConfig \<Rightarrow> string)) list" where
  "experience_fields =
     [(''python_exp'', python_exp), (''javascript_exp'', javascript_exp),
      (''java_exp'', java_exp), (''aws_exp'', aws_exp), (''django_exp'', django_exp),
      (''analysis_exp'', analysis_exp), (''teaching_exp'', teaching_exp),
      (''programming_exp'', programming_exp), (''default_exp'', default_exp)]"

text \<open>The loop of \<open>_validate_experience_values\<close> over the fields still to check.\<close>

fun validate_experience_loop ::
  "host \<Rightarrow> (string \<times> (BotConfig \<Rightarrow> string)) list \<Rightarrow> BotConfig \<Rightarrow> config_error + unit" where
  "validate_experience_loop h [] c = Inr ()"
| "validate_experience_loop h ((field, get) # rest) c =
     (case int_of h (get c) of
        Some exp_years \<Rightarrow> validate_experience_loop h rest c
      | None \<Rightarrow>
          Inl (ValueError (''Experience field '' @ field @ '' must be numeric, got: '' @ get c)))"

definition validate_experience_values :: "host \<Rightarrow> BotConfig \<Rightarrow> config_error + unit" where
  "validate_experience_values h c = validate_experience_loop h experience_fields c"

definition dangerous_chars :: "char list" where
  "dangerous_chars =
     [CHR ''<'', CHR ''>'', CHR 0x22, CHR 0x27, CHR ''&'', CHR '';'',
      CHR ''('', CHR '')'', CHR ''|'', CHR ''`'']"

text \<open>The inner loop of \<open>_sanitize_inputs\<close> on one string value.\<close>

definition sanitize :: "string \<Rightarrow> string" where
  "sanitize v = fold (\<lambda>ch value. if ch \<in> set value then remove_char ch value else value)
                  dangerous_chars v"

text \<open>
  \<open>_sanitize_inputs\<close> visits every dataclass field and rewrites those that hold
  a string: all but \<open>load_delay\<close>, which is a float.
\<close>

definition sanitize_inputs :: "BotConfig \<Rightarrow> BotConfig" where
  "sanitize_inputs c =
     c\<lparr> resume_path := sanitize (resume_path c),
        phone := sanitize (phone c),
        address := sanitize (address c),
        city := sanitize (city c),
        postal := sanitize (postal c),
        state := sanitize (state c),
        github := sanitize (github c),
        linkedin := sanitize (linkedin c),
        university := sanitize (university c),
        python_exp := sanitize (python_exp c),
        javascript_exp := sanitize (javascript_exp c),
        java_exp := sanitize (java_exp c),
        aws_exp := sanitize (aws_exp c),
        django_exp := sanitize (django_exp c),
        analysis_exp := sanitize (analysis_exp c),
        teaching_exp := sanitize (teaching_exp c),
        programming_exp := sanitize (programming_exp c),
        default_exp := sanitize (default_exp c),
        salary := sanitize (salary c),
        work_authorized := sanitize (work_authorized c),
        education := sanitize (education c),
        sponsorship_needed := sanitize (sponsorship_needed c),
        commute_willing := sanitize (commute_willing c),
        commute_willing_alt := sanitize (commute_willing_alt c),
        preferred_shift := sanitize (preferred_shift c),
        disability_status := sanitize (disability_status c),
        dbs_check := sanitize (dbs_check c),
        criminal_record := sanitize (criminal_record c),
        valid_cert := sanitize (valid_cert c),
        gender := sanitize (gender c),
        available_hours := sanitize (available_hours c),
        interview_availability := sanitize (interview_availability c),
        default_unknown_answer := sanitize (default_unknown_answer c) \<rparr>"

text \<open>
  Constructing a \<open>BotConfig\<close> runs \<open>__post_init__\<close> on the field values given:
  the three validations in order, each of which may raise, then the
  sanitisation. The result is the exception or the finished object.
\<close>

definition post_init :: "host \<Rightarrow> BotConfig \<Rightarrow> config_error + BotConfig" where
  "post_init h c =
     (case validate_required_fields c of
        Inl e \<Rightarrow> Inl e
      | Inr _ \<Rightarrow>
          (case validate_file_paths h c of
             Inl e \<Rightarrow> Inl e
           | Inr _ \<Rightarrow>
               (case validate_experience_values h c of
                  Inl e \<Rightarrow> Inl e
                | Inr _ \<Rightarrow> Inr (sanitize_inputs c))))"

text \<open>
  \<open>load_config\<close> reads every field from the environment with its default,
  converts \<open>LOAD_DELAY\<close> with \<open>float\<close>, and constructs the \<open>BotConfig\<close>. An
  exception is logged and raised again.
\<close>

definition load_config :: "host \<Rightarrow> config_error + BotConfig" where
  "load_config h =
     (case float_of h (getenv h ''LOAD_DELAY'' ''2.0'') of
        Inl e \<Rightarrow> Inl e
      | Inr delay \<Rightarrow>
          post_init h
            \<lparr> load_delay = delay,
              resume_path = abspath h (getenv h ''RESUME_PATH'' ''resume.pdf''),
              phone = getenv h ''PHONE_NUMBER'' '''',
              address = getenv h ''ADDRESS'' '''',
              city = getenv h ''CITY'' '''',
              postal = getenv h ''POSTAL_CODE'' '''',
              state = getenv h ''STATE'' '''',
              github = getenv h ''GITHUB_URL'' '''',
              linkedin = getenv h ''LINKEDIN_URL'' '''',
              university = getenv h ''UNIVERSITY'' '''',
              python_exp = getenv h ''PYTHON_EXPERIENCE'' ''0'',
              javascript_exp = getenv h ''JAVASCRIPT_EXPERIENCE'' ''0'',
              java_exp = getenv h ''JAVA_EXPERIENCE'' ''0'',
              aws_exp = getenv h ''AWS_EXPERIENCE'' ''0'',
              django_exp = getenv h ''DJANGO_EXPERIENCE'' ''0'',
              analysis_exp = getenv h ''ANALYSIS_EXPERIENCE'' ''0'',
              teaching_exp = getenv h ''TEACHING_EXPERIENCE'' ''0'',
              programming_exp = getenv h ''PROGRAMMING_EXPERIENCE'' ''0'',
              default_exp = getenv h ''DEFAULT_EXPERIENCE'' ''0'',
              salary = getenv h ''SALARY_EXPECTATION'' '''',
              work_authorized = getenv h ''WORK_AUTHORIZED'' ''Yes'',
              education = getenv h ''EDUCATION_LEVEL'' ''Bachelor'',
              sponsorship_needed = getenv h ''SPONSORSHIP_NEEDED'' ''No'',
              commute_willing = getenv h ''COMMUTE_WILLING'' ''Yes'',
              commute_willing_alt = getenv h ''COMMUTE_WILLING_ALT'' ''Yes'',
              preferred_shift = getenv h ''PREFERRED_SHIFT'' ''Day shift'',
              disability_status = getenv h ''DISABILITY_STATUS'' ''Decline to answer'',
              dbs_check = getenv h ''DBS_CHECK'' ''Yes'',
              criminal_record = getenv h ''CRIMINAL_RECORD'' ''No'',
              valid_cert = getenv h ''VALID_CERTIFICATE'' ''Yes'',
              gender = getenv h ''GENDER'' ''Decline to answer'',
              available_hours = getenv h ''AVAILABLE_HOURS'' ''Yes'',
              interview_availability = getenv h ''INTERVIEW_AVAILABILITY'' ''Flexible'',
              default_unknown_answer = getenv h ''DEFAULT_UNKNOWN_ANSWER'' ''Yes'' \<rparr>)"

text \<open>The values of all string fields of a configuration.\<close>

definition string_fields :: "BotConfig \<Rightarrow> string list" where
  "string_fields c =
     [resume_path c, phone c, address c, city c, postal c, state c, github c,
      linkedin c, university c, python_exp c, javascript_exp c, java_exp c, aws_exp c,
      django_exp c, analysis_exp c, teaching_exp c, programming_exp c, default_exp c,
      salary c, work_authorized c, education c, sponsorship_needed c, commute_willing c,
      commute_willing_alt c, preferred_shift c, disability_status c, dbs_check c,
      criminal_record c, valid_cert c, gender c, available_hours c,
      interview_availability c, default_unknown_answer c]"

section \<open>Rate limiter\<close>

text \<open>
  Time stamps and durations are Python floats. Their type \<open>'f\<close> and the four
  operations the method applies to them are parameters, named for the operand
  types of the source: \<open>now - req_time\<close> (float minus float), \<open>\<dots> < self.time_window\<close>
  (float less than int), \<open>self.time_window - \<dots>\<close> (int minus float) and
  \<open>\<dots> + 1\<close> (float plus int). Nothing is assumed of them, so what is proved
  holds of IEEE double arithmetic with its rounding.

  \<open>time.time()\<close> is the argument \<open>now\<close>; \<open>time.sleep(d)\<close> is the returned
  duration (\<open>None\<close> when the call does not sleep). Indexing an empty list raises
  \<open>IndexError\<close>. The limiter is returned as the call leaves it: pruned, and with
  the new time stamp unless the call raised.
\<close>

record 'f float_arith =
  float_sub :: "'f \<Rightarrow> 'f \<Rightarrow> 'f"
  float_less_int :: "'f \<Rightarrow> int \<Rightarrow> bool"
  int_sub_float :: "int \<Rightarrow> 'f \<Rightarrow> 'f"
  float_add_int :: "'f \<Rightarrow> int \<Rightarrow> 'f"

record 'f RateLimiter =
  max_requests :: int
  time_window :: int
  requests :: "'f list"

datatype index_error = IndexError

definition wait_if_needed ::
  "'f float_arith \<Rightarrow> 'f \<Rightarrow> 'f RateLimiter \<Rightarrow> (index_error + 'f option) \<times> 'f RateLimiter" where
  "wait_if_needed ar now rl =
     (let reqs = filter (\<lambda>req_time. float_less_int ar (float_sub ar now req_time) (time_window rl))
                   (requests rl)
      in if int (length reqs) \<ge> max_requests rl
         then (case reqs of
                 [] \<Rightarrow> (Inl IndexError, rl\<lparr>requests := reqs\<rparr>)
               | first # _ \<Rightarrow>
                   (Inr (Some (float_add_int ar
                                 (int_sub_float ar (time_window rl) (float_sub ar now first)) 1)),
                    rl\<lparr>requests := reqs @ [now]\<rparr>))
         else (Inr None, rl\<lparr>requests := reqs @ [now]\<rparr>))"

section \<open>The browser session\<close>

text \<open>
  The Selenium session is the program's external collaborator and is taken as
  a parameter: a type \<open>'w\<close> of browser states, a type \<open>'e\<close> of element handles,
  and one function per primitive that \<open>apply.py\<close> calls. A primitive that only
  reads returns its value or the exception it raises; one that acts on the
  browser (or lets time pass) also returns the next state. \<open>wait_presence\<close> is
  \<open>WebDriverWait(driver, timeout).until(presence_of_element_located(...))\<close>,
  \<open>script_click\<close> is \<open>execute_script("arguments[0].click();", element)\<close>,
  \<open>chain_click\<close> is the action chain that moves to the element and clicks,
  \<open>sleep\<close> is \<open>time.sleep\<close> and \<open>file_exists\<close> is \<open>os.path.exists\<close>.

  The last three fields are the methods of \<open>HumanBehaviorSimulator\<close> that the
  modelled code calls. They draw random numbers and sleep, so their effect is
  left open: any change of the browser state, and for \<open>random_scroll\<close> also an
  exception from its \<open>execute_script\<close> call (\<open>random_mouse_movement\<close> catches its
  own, \<open>human_delay\<close> calls nothing that raises).
\<close>

datatype exn =
    TimeoutException
  | NoSuchElementException
  | ElementClickInterceptedException
  | StaleElementReferenceException
  | WebDriverException
  | TypeError

datatype By = CSS_SELECTOR | XPATH | CLASS_NAME

record ('w, 'e) browser =
  window_handles :: "'w \<Rightarrow> exn + string list"
  switch_to_window :: "string \<Rightarrow> 'w \<Rightarrow> exn option \<times> 'w"
  find_elements :: "By \<Rightarrow> string \<Rightarrow> 'w \<Rightarrow> exn + 'e list"
  find_elements_in :: "'e \<Rightarrow> By \<Rightarrow> string \<Rightarrow> 'w \<Rightarrow> exn + 'e list"
  wait_presence :: "By \<Rightarrow> string \<Rightarrow> nat \<Rightarrow> 'w \<Rightarrow> (exn + 'e) \<times> 'w"
  page_source :: "'w \<Rightarrow> exn + string"
  element_text :: "'e \<Rightarrow> 'w \<Rightarrow> exn + string"
  is_enabled :: "'e \<Rightarrow> 'w \<Rightarrow> exn + bool"
  is_displayed :: "'e \<Rightarrow> 'w \<Rightarrow> exn + bool"
  get_attribute :: "'e \<Rightarrow> string \<Rightarrow> 'w \<Rightarrow> exn + string option"
  click :: "'e \<Rightarrow> 'w \<Rightarrow> exn option \<times> 'w"
  script_click :: "'e \<Rightarrow> 'w \<Rightarrow> exn option \<times> 'w"
  chain_click :: "'e \<Rightarrow> 'w \<Rightarrow> exn option \<times> 'w"
  clear :: "'e \<Rightarrow> 'w \<Rightarrow> exn option \<times> 'w"
  send_keys :: "'e \<Rightarrow> string \<Rightarrow> 'w \<Rightarrow> exn option \<times> 'w"
  sleep :: "real \<Rightarrow> 'w \<Rightarrow> 'w"
  file_exists :: "string \<Rightarrow> 'w \<Rightarrow> bool"
  random_scroll :: "'w \<Rightarrow> exn option \<times> 'w"
  random_mouse_movement :: "'w \<Rightarrow> 'w"
  human_delay :: "real \<Rightarrow> real \<Rightarrow> 'w \<Rightarrow> 'w"

text \<open>
  \<open>find_element\<close> (on the driver or inside an element) is the first match of
  \<open>find_elements\<close>, and \<open>NoSuchElementException\<close> when there is none.
\<close>

definition first_match :: "exn + 'e list \<Rightarrow> exn + 'e" where
  "first_match found =
     (case found of
        Inl ex \<Rightarrow> Inl ex
      | Inr [] \<Rightarrow> Inl NoSuchElementException
      | Inr (e # _) \<Rightarrow> Inr e)"

definition find_element :: "('w, 'e) browser \<Rightarrow> By \<Rightarrow> string \<Rightarrow> 'w \<Rightarrow> exn + 'e" where
  "find_element drv b v w = first_match (find_elements drv b v w)"


text \<open>Python's truth value of a string, and of a value that is a string or \<open>None\<close>.\<close>

definition truthy :: "string option \<Rightarrow> bool" where
  "truthy v = (case v of None \<Rightarrow> False | Some s \<Rightarrow> s \<noteq> [])"

text \<open>\<open>any(k in s for k in keywords)\<close>.\<close>

definition any_in :: "string list \<Rightarrow> string \<Rightarrow> bool" where
  "any_in keywords s = list_ex (\<lambda>keyword. py_in keyword s) keywords"

section \<open>Element handling\<close>

text \<open>
  \<open>safe_find_element\<close>: the loop over \<open>range(3)\<close>. A time-out sleeps a second
  and tries again, except on the last attempt; any other exception gives up.
\<close>

fun safe_find_loop ::
  "('w, 'e) browser \<Rightarrow> By \<Rightarrow> string \<Rightarrow> nat \<Rightarrow> nat list \<Rightarrow> 'w \<Rightarrow> 'e option \<times> 'w" where
  "safe_find_loop drv b v timeout [] w = (None, w)"
| "safe_find_loop drv b v timeout (attempt # rest) w =
     (case wait_presence drv b v timeout w of
        (Inr element, w1) \<Rightarrow> (Some element, w1)
      | (Inl ex, w1) \<Rightarrow>
          if ex = TimeoutException
          then (if attempt < 2 then safe_find_loop drv b v timeout rest (sleep drv 1 w1)
                else (None, w1))
          else (None, w1))"

definition safe_find_element ::
  "('w, 'e) browser \<Rightarrow> By \<Rightarrow> string \<Rightarrow> nat \<Rightarrow> 'w \<Rightarrow> 'e option \<times> 'w" where
  "safe_find_element drv b v timeout w = safe_find_loop drv b v timeout [0, 1, 2] w"

text \<open>
  \<open>safe_click\<close>. The three strategies, in the order of the list in the source:
  the element's own \<open>click\<close>, a click dispatched by script, and an action chain
  that moves to the element and clicks.
\<close>

definition strategies :: "('w, 'e) browser \<Rightarrow> 'e \<Rightarrow> ('w \<Rightarrow> exn option \<times> 'w) list" where
  "strategies drv element = [click drv element, script_click drv element, chain_click drv element]"

text \<open>
  What the two \<open>except\<close> clauses do before the loop goes on: after a
  click-intercepted or stale-element error, half a second of sleep unless the
  strategy was the last one; after any other exception, nothing.
\<close>

definition after_failed_click :: "('w, 'e) browser \<Rightarrow> nat \<Rightarrow> nat \<Rightarrow> exn \<Rightarrow> 'w \<Rightarrow> 'w" where
  "after_failed_click drv i n ex w =
     (if (ex = ElementClickInterceptedException \<or> ex = StaleElementReferenceException)
         \<and> i < n - 1
      then sleep drv 0.5 w else w)"

text \<open>The human behaviour simulated before the first strategy only.\<close>

definition before_click :: "('w, 'e) browser \<Rightarrow> nat \<Rightarrow> 'w \<Rightarrow> exn option \<times> 'w" where
  "before_click drv i w =
     (if i = 0
      then (case random_scroll drv w of
              (Some ex, w1) \<Rightarrow> (Some ex, w1)
            | (None, w1) \<Rightarrow> (None, random_mouse_movement drv w1))
      else (None, w))"

text \<open>
  The body of the \<open>try\<close> up to the call of the strategy: the exception raised,
  if any, and the browser state it leaves.
\<close>

definition attempt ::
  "('w, 'e) browser \<Rightarrow> nat \<Rightarrow> ('w \<Rightarrow> exn option \<times> 'w) \<Rightarrow> 'w \<Rightarrow> exn option \<times> 'w" where
  "attempt drv i strategy w =
     (case before_click drv i w of
        (Some ex, w1) \<Rightarrow> (Some ex, w1)
      | (None, w1) \<Rightarrow> strategy w1)"

fun safe_click_loop ::
  "('w, 'e) browser \<Rightarrow> nat \<Rightarrow> (nat \<times> ('w \<Rightarrow> exn option \<times> 'w)) list \<Rightarrow> 'w \<Rightarrow> bool \<times> 'w" where
  "safe_click_loop drv n [] w = (False, w)"
| "safe_click_loop drv n ((i, strategy) # rest) w =
     (case attempt drv i strategy w of
        (None, w1) \<Rightarrow> (True, human_delay drv 0.5 1.5 w1)
      | (Some ex, w1) \<Rightarrow> safe_click_loop drv n rest (after_failed_click drv i n ex w1))"

definition safe_click :: "('w, 'e) browser \<Rightarrow> 'e option \<Rightarrow> 'w \<Rightarrow> bool \<times> 'w" where
  "safe_click drv element w =
     (case element of
        None \<Rightarrow> (False, w)
      | Some e \<Rightarrow>
          safe_click_loop drv (length (strategies drv e)) (enumerate 0 (strategies drv e)) w)"

section \<open>Page classification\<close>

text \<open>The dictionary \<open>page_info\<close> with its two keys, \<open>'type'\<close> and \<open>'title'\<close>.\<close>

record page_info =
  page_type :: string
  page_title :: string

definition title_selectors :: "string list" where
  "title_selectors =
     [''.ia-BasePage-heading'', ''h1'', ''h2'', ''.ia-PageTitle'',
      ''[data-testid='page-title']'']"

text \<open>
  The loop that looks for the heading: the first selector whose element is
  found gives the title, the stripped text of that element; reading the text
  can raise. With no element found the title stays empty.
\<close>

fun locate_title ::
  "('w, 'e) browser \<Rightarrow> string list \<Rightarrow> 'w \<Rightarrow> (exn + string) \<times> 'w" where
  "locate_title drv [] w = (Inr [], w)"
| "locate_title drv (selector # rest) w =
     (case safe_find_element drv CSS_SELECTOR selector 3 w of
        (Some title_element, w1) \<Rightarrow>
          (case element_text drv title_element w1 of
             Inl ex \<Rightarrow> (Inl ex, w1)
           | Inr t \<Rightarrow> (Inr (strip t), w1))
      | (None, w1) \<Rightarrow> locate_title drv rest w1)"

definition upload_keywords :: "string list" where
  "upload_keywords = [''resume'', ''cv'', ''upload'', ''documents'']"

definition contact_keywords :: "string list" where
  "contact_keywords = [''contact'', ''information'', ''details'']"

definition questions_keywords :: "string list" where
  "questions_keywords = [''questions'', ''screening'', ''assessment'']"

definition review_keywords :: "string list" where
  "review_keywords = [''review'', ''summary'', ''confirm'']"

text \<open>The structural probes of the final \<open>else\<close> branch; each \<open>find_elements\<close> can raise.\<close>

definition probe_page :: "('w, 'e) browser \<Rightarrow> 'w \<Rightarrow> exn + string" where
  "probe_page drv w =
     (case find_elements drv CSS_SELECTOR ''input[type=\"file\"]'' w of
        Inl ex \<Rightarrow> Inl ex
      | Inr (_ # _) \<Rightarrow> Inr ''upload''
      | Inr [] \<Rightarrow>
          (case find_elements drv CSS_SELECTOR ''.ia-Questions-item'' w of
             Inl ex \<Rightarrow> Inl ex
           | Inr (_ # _) \<Rightarrow> Inr ''questions''
           | Inr [] \<Rightarrow>
               (case find_elements drv CSS_SELECTOR
                       ''input[name*=\"phone\"], input[name*=\"email\"]'' w of
                  Inl ex \<Rightarrow> Inl ex
                | Inr (_ # _) \<Rightarrow> Inr ''contact''
                | Inr [] \<Rightarrow> Inr ''unknown'')))"

definition detect_page_type :: "('w, 'e) browser \<Rightarrow> 'w \<Rightarrow> (exn + page_info) \<times> 'w" where
  "detect_page_type drv w =
     (case locate_title drv title_selectors w of
        (Inl ex, w1) \<Rightarrow> (Inl ex, w1)
      | (Inr title, w1) \<Rightarrow>
          (let title_lower = lower title in
           if any_in upload_keywords title_lower
           then (Inr \<lparr>page_type = ''upload'', page_title = title\<rparr>, w1)
           else if any_in contact_keywords title_lower
           then (Inr \<lparr>page_type = ''contact'', page_title = title\<rparr>, w1)
           else if any_in questions_keywords title_lower
           then (Inr \<lparr>page_type = ''questions'', page_title = title\<rparr>, w1)
           else if any_in review_keywords title_lower
           then (Inr \<lparr>page_type = ''review'', page_title = title\<rparr>, w1)
           else (case probe_page drv w1 of
                   Inl ex \<Rightarrow> (Inl ex, w1)
                 | Inr t \<Rightarrow> (Inr \<lparr>page_type = t, page_title = title\<rparr>, w1))))"

section \<open>Terminal conditions\<close>







section \<open>Page handlers\<close>

subsection \<open>Upload\<close>





subsection \<open>Contact\<close>

definition contact_fields :: "BotConfig \<Rightarrow> (string \<times> string) list" where
  "contact_fields config =
     [(''input[name*=\"phone\"]'', phone config),
      (''input[name*=\"address\"]'', address config),
      (''input[name*=\"city\"]'', city config),
      (''input[name*=\"state\"]'', state config),
      (''input[name*=\"zip\"]'', postal config),
      (''input[name*=\"postal\"]'', postal config)]"

text \<open>
  The body of the loop of \<open>handle_contact_page\<close> for one selector and value:
  whether the field was filled (the step that increments \<open>filled_count\<close>), and
  the browser state after it. Every exception is caught inside the loop.
\<close>

definition fill_contact_field ::
  "('w, 'e) browser \<Rightarrow> string \<Rightarrow> string \<Rightarrow> 'w \<Rightarrow> bool \<times> 'w" where
  "fill_contact_field drv selector v w =
     (if v = [] then (False, w)
      else (case find_element drv CSS_SELECTOR selector w of
              Inl ex \<Rightarrow> (False, w)
            | Inr field \<Rightarrow>
                (case is_enabled drv field w of
                   Inl ex \<Rightarrow> (False, w)
                 | Inr enabled \<Rightarrow>
                     if \<not> enabled then (False, w)
                     else (case get_attribute drv field ''value'' w of
                             Inl ex \<Rightarrow> (False, w)
                           | Inr current \<Rightarrow>
                               if truthy current then (False, w)
                               else (case clear drv field w of
                                       (Some ex, w1) \<Rightarrow> (False, w1)
                                     | (None, w1) \<Rightarrow>
                                         (case send_keys drv field v w1 of
                                            (Some ex, w2) \<Rightarrow> (False, w2)
                                          | (None, w2) \<Rightarrow> (True, w2)))))))"

fun contact_loop ::
  "('w, 'e) browser \<Rightarrow> (string \<times> string) list \<Rightarrow> nat \<Rightarrow> 'w \<Rightarrow> nat \<times> 'w" where
  "contact_loop drv [] filled_count w = (filled_count, w)"
| "contact_loop drv ((selector, v) # rest) filled_count w =
     (case fill_contact_field drv selector v w of
        (filled, w1) \<Rightarrow>
          contact_loop drv rest (if filled then filled_count + 1 else filled_count) w1)"

definition handle_contact_page :: "('w, 'e) browser \<Rightarrow> BotConfig \<Rightarrow> 'w \<Rightarrow> bool \<times> 'w" where
  "handle_contact_page drv config w =
     (case contact_loop drv (contact_fields config) 0 w of
        (filled_count, w1) \<Rightarrow> (filled_count > 0, w1))"

text \<open>
  The browser states in which the loop of \<open>handle_contact_page\<close> meets each of
  the given fields, in order. This is not code of the program: it names the
  states that statements about the loop speak of.
\<close>

fun contact_states ::
  "('w, 'e) browser \<Rightarrow> (string \<times> string) list \<Rightarrow> 'w \<Rightarrow> 'w list" where
  "contact_states drv [] w = []"
| "contact_states drv ((selector, v) # rest) w =
     w # contact_states drv rest (snd (fill_contact_field drv selector v w))"

subsection \<open>Questions\<close>











subsection \<open>Review\<close>


section \<open>Advancing to the next step\<close>











section \<open>The workflow driver\<close>








section \<open>Example inputs\<close>

text \<open>A configuration with every required field set and numeric experience values.\<close>

definition example_config :: BotConfig where
  "example_config =
     \<lparr> load_delay = 2, resume_path = ''/home/user/resume.pdf'', phone = ''555 0100'',
       address = ''1 Main St'', city = ''Springfield'', postal = ''12345'', state = ''IL'',
       github = '''', linkedin = '''', university = '''',
       python_exp = ''5'', javascript_exp = ''3'', java_exp = ''0'', aws_exp = ''1'',
       django_exp = ''2'', analysis_exp = ''0'', teaching_exp = ''0'',
       programming_exp = ''6'', default_exp = ''1'',
       salary = '''', work_authorized = ''Yes'', education = ''Bachelor'',
       sponsorship_needed = ''No'', commute_willing = ''Yes'', commute_willing_alt = ''Yes'',
       preferred_shift = ''Day shift'', disability_status = ''Decline to answer'',
       dbs_check = ''Yes'', criminal_record = ''No'', valid_cert = ''Yes'',
       gender = ''Decline to answer'', available_hours = ''Yes'',
       interview_availability = ''Flexible'', default_unknown_answer = ''Yes'' \<rparr>"

text \<open>
  A reader of plain decimal literals, which the example host below uses as its
  \<open>int\<close>: optional white space around, one optional sign, then digits, with
  single underscores allowed between two digits. It is not part of the program.
\<close>

definition int_space :: "char \<Rightarrow> bool" where
  "int_space c = (c \<in> set [CHR 0x09, CHR 0x0A, CHR 0x0B, CHR 0x0C, CHR 0x0D, CHR '' ''])"

definition digit_value :: "char \<Rightarrow> int option" where
  "digit_value c = map_of (zip ''0123456789'' [0, 1, 2, 3, 4, 5, 6, 7, 8, 9]) c"

text \<open>
  The flag says whether the character before was a digit: only then may an
  underscore follow, and only then may the literal end.
\<close>

fun digits :: "bool \<Rightarrow> int \<Rightarrow> string \<Rightarrow> int option" where
  "digits after_digit acc [] = (if after_digit then Some acc else None)"
| "digits after_digit acc (c # cs) =
     (case digit_value c of
        Some d \<Rightarrow> digits True (10 * acc + d) cs
      | None \<Rightarrow> if c = CHR ''_'' \<and> after_digit then digits False acc cs else None)"

definition read_decimal :: "string \<Rightarrow> int option" where
  "read_decimal s =
     (case rev (dropWhile int_space (rev (dropWhile int_space s))) of
        [] \<Rightarrow> None
      | c # cs \<Rightarrow>
          if c = CHR ''-'' then map_option uminus (digits False 0 cs)
          else if c = CHR ''+'' then digits False 0 cs
          else digits False 0 (c # cs))"

text \<open>
  A host with the given environment, on which the resume file is there or not,
  and whose \<open>float\<close> reads the default delay only.
\<close>

definition example_host :: "bool \<Rightarrow> (string \<times> string) list \<Rightarrow> host" where
  "example_host resume_there env =
     \<lparr> environ = map_of env,
       path_exists = (\<lambda>p. resume_there),
       path_is_file = (\<lambda>p. resume_there),
       abspath = (\<lambda>p. ''/home/user/'' @ p),
       float_of = (\<lambda>s. if s = ''2.0'' then Inr 2
                        else Inl (ValueError ''could not convert string to float'')),
       int_of = read_decimal \<rparr>"

text \<open>
  Whole numbers of seconds as floats. Below \<open>2^53\<close> every whole number is an
  IEEE double and the sums and differences of two of them are computed without
  rounding, so on such time stamps the interpreter's float arithmetic is the
  arithmetic of the integers.
\<close>

definition whole_seconds :: "int float_arith" where
  "whole_seconds =
     \<lparr> float_sub = (\<lambda>x y. x - y),
       float_less_int = (\<lambda>x n. x < n),
       int_sub_float = (\<lambda>n x. n - x),
       float_add_int = (\<lambda>x n. x + n) \<rparr>"

text \<open>An environment whose phone number consists of two parentheses.\<close>

definition parenthesis_environ :: "(string \<times> string) list" where
  "parenthesis_environ =
     [(''PHONE_NUMBER'', ''()''), (''ADDRESS'', ''1 Main St''), (''CITY'', ''Springfield''),
      (''POSTAL_CODE'', ''12345''), (''STATE'', ''IL'')]"

text \<open>
  A page that does not change: what each selector finds (elements are named
  by strings), the text, attributes and state of each element, what each of
  the three click strategies does on it, and the page source. The browser
  built on it keeps, as its state, the list of the actions performed so far.
\<close>

record fixture =
  fx_elements :: "string \<Rightarrow> string list"
  fx_text :: "string \<Rightarrow> exn + string"
  fx_attribute :: "string \<Rightarrow> string \<Rightarrow> string option"
  fx_enabled :: "string \<Rightarrow> bool"
  fx_click :: "nat \<Rightarrow> string \<Rightarrow> exn option"
  fx_source :: "exn + string"

definition fixture_browser :: "fixture \<Rightarrow> (string list, string) browser" where
  "fixture_browser fx =
     \<lparr> window_handles = (\<lambda>w. Inr [''main'']),
       switch_to_window = (\<lambda>h w. (None, w @ [''switch to '' @ h])),
       find_elements = (\<lambda>b v w. Inr (fx_elements fx v)),
       find_elements_in = (\<lambda>e b v w. Inr (fx_elements fx v)),
       wait_presence = (\<lambda>b v t w.
         case fx_elements fx v of
           [] \<Rightarrow> (Inl TimeoutException, w)
         | e # _ \<Rightarrow> (Inr e, w)),
       page_source = (\<lambda>w. fx_source fx),
       element_text = (\<lambda>e w. fx_text fx e),
       is_enabled = (\<lambda>e w. Inr (fx_enabled fx e)),
       is_displayed = (\<lambda>e w. Inr True),
       get_attribute = (\<lambda>e a w. Inr (fx_attribute fx e a)),
       click = (\<lambda>e w. (fx_click fx 0 e, w @ [''click '' @ e])),
       script_click = (\<lambda>e w. (fx_click fx 1 e, w @ [''script click '' @ e])),
       chain_click = (\<lambda>e w. (fx_click fx 2 e, w @ [''move to and click '' @ e])),
       clear = (\<lambda>e w. (None, w @ [''clear '' @ e])),
       send_keys = (\<lambda>e k w. (None, w @ [''type '' @ k @ '' into '' @ e])),
       sleep = (\<lambda>d w. w),
       file_exists = (\<lambda>p w. True),
       random_scroll = (\<lambda>w. (None, w)),
       random_mouse_movement = (\<lambda>w. w),
       human_delay = (\<lambda>lo hi w. w) \<rparr>"

text \<open>A page with nothing on it but a button to continue, which every click strategy clicks.\<close>

definition continue_page :: fixture where
  "continue_page =
     \<lparr> fx_elements = (\<lambda>v. if v = ''button[data-testid=\"continue\"]'' then [''continue''] else []),
       fx_text = (\<lambda>e. Inr (if e = ''continue'' then ''Continue'' else [])),
       fx_attribute = (\<lambda>e a. if a = ''class'' then Some ''btn'' else None),
       fx_enabled = (\<lambda>e. True),
       fx_click = (\<lambda>i e. None),
       fx_source = Inr ''<html><body><button>Continue</button></body></html>'' \<rparr>"


text \<open>A page whose first-level heading reads ``Upload your resume''.\<close>

definition upload_heading_page :: fixture where
  "upload_heading_page =
     \<lparr> fx_elements = (\<lambda>v. if v = ''h1'' then [''heading''] else []),
       fx_text = (\<lambda>e. Inr (if e = ''heading'' then ''Upload your resume'' else [])),
       fx_attribute = (\<lambda>e a. None),
       fx_enabled = (\<lambda>e. True),
       fx_click = (\<lambda>i e. None),
       fx_source = Inr ''<html><body><h1>Upload your resume</h1></body></html>'' \<rparr>"

text \<open>A page with no heading and one file input.\<close>

definition file_input_page :: fixture where
  "file_input_page =
     \<lparr> fx_elements = (\<lambda>v. if v = ''input[type=\"file\"]'' then [''file input''] else []),
       fx_text = (\<lambda>e. Inr []),
       fx_attribute = (\<lambda>e a. None),
       fx_enabled = (\<lambda>e. True),
       fx_click = (\<lambda>i e. None),
       fx_source = Inr ''<html><body><input type=\"file\"></body></html>'' \<rparr>"

text \<open>
  The page with the button to continue, where the button's own \<open>click\<close> is
  intercepted and the other two strategies work.
\<close>

definition intercepted_button_page :: fixture where
  "intercepted_button_page =
     continue_page\<lparr>fx_click :=
       (\<lambda>i e. if i = 0 then Some ElementClickInterceptedException else None)\<rparr>"

text \<open>The same page, where every strategy fails with a general driver error.\<close>

definition broken_button_page :: fixture where
  "broken_button_page = continue_page\<lparr>fx_click := (\<lambda>i e. Some WebDriverException)\<rparr>"

text \<open>A contact page: an empty input for the phone number, and one for the city that holds a value.\<close>

definition contact_page :: fixture where
  "contact_page =
     \<lparr> fx_elements = (\<lambda>v. if v = ''input[name*=\"phone\"]'' then [''phone input'']
                         else if v = ''input[name*=\"city\"]'' then [''city input'']
                         else []),
       fx_text = (\<lambda>e. Inr []),
       fx_attribute = (\<lambda>e a. if e = ''city input'' \<and> a = ''value'' then Some ''Boston'' else None),
       fx_enabled = (\<lambda>e. True),
       fx_click = (\<lambda>i e. None),
       fx_source = Inr ''<html><body><input name=phone><input name=city></body></html>'' \<rparr>"


section \<open>Properties of the string operations\<close>

text \<open>
  \<open>py_in\<close> is the substring test; lower-casing commutes with stripping; and
  stripping a text does not change whether it contains a word that neither
  starts nor ends with white space.
\<close>

lemma startswith_iff: "startswith s p \<longleftrightarrow> (\<exists>q. s = p @ q)"
  by (induction s p rule: startswith.induct) auto

lemma py_in_iff: "py_in sub s \<longleftrightarrow> (\<exists>p q. s = p @ sub @ q)"
proof (induction s)
  case Nil
  then show ?case by simp
next
  case (Cons c cs)
  have "(\<exists>p q. c # cs = p @ sub @ q)
      \<longleftrightarrow> (\<exists>q. c # cs = sub @ q) \<or> (\<exists>p q. cs = p @ sub @ q)"
  proof
    assume "\<exists>p q. c # cs = p @ sub @ q"
    then obtain p q where pq: "c # cs = p @ sub @ q" by (elim exE)
    show "(\<exists>q. c # cs = sub @ q) \<or> (\<exists>p q. cs = p @ sub @ q)"
    proof (cases p)
      case Nil
      with pq show ?thesis by auto
    next
      case (Cons a p')
      with pq have "cs = p' @ sub @ q" by simp
      then show ?thesis by auto
    qed
  next
    assume "(\<exists>q. c # cs = sub @ q) \<or> (\<exists>p q. cs = p @ sub @ q)"
    then show "\<exists>p q. c # cs = p @ sub @ q"
    proof
      assume "\<exists>q. c # cs = sub @ q"
      then obtain q where "c # cs = [] @ sub @ q" by auto
      then show ?thesis by (intro exI)
    next
      assume "\<exists>p q. cs = p @ sub @ q"
      then obtain p q where "c # cs = (c # p) @ sub @ q" by auto
      then show ?thesis by (intro exI)
    qed
  qed
  with Cons show ?case by (simp add: startswith_iff)
qed

lemma lower_char_cases:
  "lower_char c = c \<or> (c \<in> set ascii_uppercase \<and> lower_char c \<in> set ascii_lowercase)"
proof (cases "map_of (zip ascii_uppercase ascii_lowercase) c")
  case None
  then show ?thesis by (simp add: lower_char_def)
next
  case (Some d)
  then have "(c, d) \<in> set (zip ascii_uppercase ascii_lowercase)"
    by (rule map_of_SomeD)
  then have "c \<in> set ascii_uppercase" "d \<in> set ascii_lowercase"
    by (auto dest: set_zip_leftD set_zip_rightD)
  with Some show ?thesis by (simp add: lower_char_def)
qed

lemma letters_not_space:
  "c \<in> set ascii_uppercase \<Longrightarrow> \<not> isspace c" "c \<in> set ascii_lowercase \<Longrightarrow> \<not> isspace c"
  by (auto simp: ascii_uppercase_def ascii_lowercase_def isspace_def whitespace_def)

lemma isspace_lower_char: "isspace (lower_char c) = isspace c"
  using lower_char_cases [of c] letters_not_space by auto

lemma lower_dropWhile: "lower (dropWhile isspace s) = dropWhile isspace (lower s)"
  by (induction s) (auto simp: lower_def isspace_lower_char)

lemma lower_rev: "lower (rev s) = rev (lower s)"
  by (simp add: lower_def rev_map)

lemma lower_strip: "lower (strip s) = strip (lower s)"
  by (simp add: strip_def lower_dropWhile lower_rev)

lemma dropWhile_keeps:
  assumes "k \<noteq> []" and "\<not> P (hd k)"
  shows "\<exists>p'. dropWhile P (p @ k @ q) = p' @ k @ q"
proof (induction p)
  case Nil
  from assms have "dropWhile P (k @ q) = [] @ k @ q" by (cases k) auto
  then show ?case by auto
next
  case (Cons a p)
  then obtain p' where p': "dropWhile P (p @ k @ q) = p' @ k @ q" by (elim exE)
  show ?case
  proof (cases "P a")
    case True
    with p' show ?thesis by auto
  next
    case False
    then have "dropWhile P ((a # p) @ k @ q) = (a # p) @ k @ q" by simp
    then show ?thesis by (intro exI)
  qed
qed

lemma strip_part: "\<exists>a b. u = a @ strip u @ b"
proof -
  define m where "m = dropWhile isspace u"
  have u: "u = takeWhile isspace u @ m" by (simp add: m_def)
  have "rev (takeWhile isspace (rev m) @ dropWhile isspace (rev m)) = m"
    by (simp only: takeWhile_dropWhile_id rev_rev_ident)
  then have "rev (dropWhile isspace (rev m)) @ rev (takeWhile isspace (rev m)) = m"
    by (simp only: rev_append)
  then have "m = strip u @ rev (takeWhile isspace (rev m))"
    unfolding strip_def m_def by (rule sym)
  with u have "u = takeWhile isspace u @ strip u @ rev (takeWhile isspace (rev m))"
    by simp
  then show ?thesis by (intro exI)
qed

lemma strip_keeps:
  assumes "k \<noteq> []" and "\<not> isspace (hd k)" and "\<not> isspace (last k)"
  shows "py_in k (strip u) \<longleftrightarrow> py_in k u"
proof
  assume "py_in k (strip u)"
  then obtain p q where pq: "strip u = p @ k @ q" unfolding py_in_iff by (elim exE)
  obtain a b where "u = a @ strip u @ b" using strip_part [of u] by (elim exE)
  with pq have "u = (a @ p) @ k @ (q @ b)" by simp
  then show "py_in k u" unfolding py_in_iff by (intro exI)
next
  assume "py_in k u"
  then obtain p q where pq: "u = p @ k @ q" unfolding py_in_iff by (elim exE)
  from dropWhile_keeps [where P = isspace and k = k and p = p and q = q, OF assms(1,2)]
  obtain p' where
    1: "dropWhile isspace (p @ k @ q) = p' @ k @ q" by (elim exE)
  have rk: "rev k \<noteq> []" "\<not> isspace (hd (rev k))"
    using assms by (simp_all add: hd_rev)
  from dropWhile_keeps [where P = isspace and k = "rev k" and p = "rev q" and q = "rev p'", OF rk]
  obtain q' where
    2: "dropWhile isspace (rev q @ rev k @ rev p') = q' @ rev k @ rev p'" by (elim exE)
  have "strip u = p' @ k @ rev q'"
    unfolding strip_def pq 1 by (simp add: 2)
  then show "py_in k (strip u)" unfolding py_in_iff by (intro exI)
qed

lemma strip_keeps_keywords:
  assumes "list_all (\<lambda>k. k \<noteq> [] \<and> \<not> isspace (hd k) \<and> \<not> isspace (last k)) ks"
  shows "any_in ks (lower (strip t)) \<longleftrightarrow> any_in ks (lower t)"
  using assms
  by (induction ks) (auto simp: any_in_def lower_strip strip_keeps)

lemma keywords_solid:
  "list_all (\<lambda>k. k \<noteq> [] \<and> \<not> isspace (hd k) \<and> \<not> isspace (last k)) upload_keywords"
  "list_all (\<lambda>k. k \<noteq> [] \<and> \<not> isspace (hd k) \<and> \<not> isspace (last k)) contact_keywords"
  "list_all (\<lambda>k. k \<noteq> [] \<and> \<not> isspace (hd k) \<and> \<not> isspace (last k)) questions_keywords"
  "list_all (\<lambda>k. k \<noteq> [] \<and> \<not> isspace (hd k) \<and> \<not> isspace (last k)) review_keywords"
  by code_simp+

section \<open>Properties of the configuration\<close>

subsection \<open>Sanitisation\<close>

lemma filter_neq_id: "a \<notin> set v \<Longrightarrow> filter (\<lambda>x. x \<noteq> a) v = v"
  by (induction v) auto

lemma sanitize_fold:
  "fold (\<lambda>ch value. if ch \<in> set value then remove_char ch value else value) cs v
     = filter (\<lambda>x. x \<notin> set cs) v"
proof (induction cs arbitrary: v)
  case Nil
  then show ?case by simp
next
  case (Cons a cs)
  have "(if a \<in> set v then remove_char a v else v) = filter (\<lambda>x. x \<noteq> a) v"
    by (simp add: remove_char_def filter_neq_id)
  then show ?case using Cons by (simp add: conj_commute)
qed

lemma sanitize_filter: "sanitize v = filter (\<lambda>x. x \<notin> set dangerous_chars) v"
  unfolding sanitize_def by (rule sanitize_fold)

lemma string_fields_sanitize:
  "string_fields (sanitize_inputs c) = map sanitize (string_fields c)"
  by (simp add: string_fields_def sanitize_inputs_def)

lemma post_init_Inr: "post_init h c = Inr c' \<Longrightarrow> c' = sanitize_inputs c"
  by (auto simp: post_init_def split: sum.splits)

text \<open>
  Claim C10. When the construction of a \<open>BotConfig\<close> succeeds, every string
  field of the result is the field's given value with all occurrences of the
  ten dangerous characters removed, so no string field contains any of them;
  the one field that is not a string, \<open>load_delay\<close>, is unchanged.
\<close>

theorem sanitized_fields_clean:
  assumes "post_init h c = Inr c'"
  shows "string_fields c' = map (filter (\<lambda>x. x \<notin> set dangerous_chars)) (string_fields c)
       \<and> (\<forall>v \<in> set (string_fields c'). \<forall>ch \<in> set dangerous_chars. ch \<notin> set v)
       \<and> load_delay c' = load_delay c"
proof -
  have c': "c' = sanitize_inputs c" using assms by (rule post_init_Inr)
  have 1: "string_fields c' = map (filter (\<lambda>x. x \<notin> set dangerous_chars)) (string_fields c)"
    unfolding c' string_fields_sanitize by (simp add: sanitize_filter)
  have 2: "\<forall>v \<in> set (string_fields c'). \<forall>ch \<in> set dangerous_chars. ch \<notin> set v"
    unfolding 1 by auto
  have 3: "load_delay c' = load_delay c"
    unfolding c' by (simp add: sanitize_inputs_def)
  from 1 2 3 show ?thesis by simp
qed

text \<open>
  An address with a semicolon and parentheses: the construction succeeds and
  the characters are gone.
\<close>

theorem sanitized_fields_clean_witness:
  "post_init (example_host True []) (example_config\<lparr>address := ''1 Main St; (rear)''\<rparr>)
     = Inr (example_config\<lparr>address := ''1 Main St rear''\<rparr>)
   \<and> list_all (\<lambda>v. list_all (\<lambda>ch. ch \<notin> set v) dangerous_chars)
        (string_fields (example_config\<lparr>address := ''1 Main St rear''\<rparr>))"
proof -
  have run: "post_init (example_host True []) (example_config\<lparr>address := ''1 Main St; (rear)''\<rparr>)
     = Inr (example_config\<lparr>address := ''1 Main St rear''\<rparr>)"
    by code_simp
  from sanitized_fields_clean [OF run]
  have "\<forall>v \<in> set (string_fields (example_config\<lparr>address := ''1 Main St rear''\<rparr>)).
          \<forall>ch \<in> set dangerous_chars. ch \<notin> set v"
    by (elim conjE)
  then have "list_all (\<lambda>v. list_all (\<lambda>ch. ch \<notin> set v) dangerous_chars)
        (string_fields (example_config\<lparr>address := ''1 Main St rear''\<rparr>))"
    unfolding list_all_iff .
  with run show ?thesis by (intro conjI)
qed

subsection \<open>Required fields\<close>

text \<open>
  Claim C5 at a concrete environment. The phone number \<open>()\<close> is not empty, so
  the check of the required fields passes; sanitisation, which runs after the
  checks, then removes both characters: \<open>load_config\<close> returns a configuration
  whose \<open>phone\<close> is the empty string.
\<close>

theorem sanitized_phone_empty:
  "environ (example_host True parenthesis_environ) ''PHONE_NUMBER'' = Some ''()''
   \<and> map_sum id phone (load_config (example_host True parenthesis_environ)) = Inr []"
  by code_simp

subsection \<open>Experience values\<close>

lemma required_ok:
  "validate_required_fields c = Inr () \<longleftrightarrow>
     phone c \<noteq> [] \<and> address c \<noteq> [] \<and> city c \<noteq> [] \<and> postal c \<noteq> [] \<and> state c \<noteq> []"
proof -
  have "map fst (filter (\<lambda>(name, get). get c = []) required_fields) = []
          \<longleftrightarrow> (\<forall>(name, get) \<in> set required_fields. get c \<noteq> [])"
    by (auto simp: filter_empty_conv)
  also have "\<dots> \<longleftrightarrow> phone c \<noteq> [] \<and> address c \<noteq> [] \<and> city c \<noteq> [] \<and> postal c \<noteq> [] \<and> state c \<noteq> []"
    by (simp add: required_fields_def)
  finally show ?thesis
    by (simp add: validate_required_fields_def Let_def)
qed

lemma files_ok:
  "validate_file_paths h c = Inr ()
     \<longleftrightarrow> path_exists h (resume_path c) \<and> path_is_file h (resume_path c)"
  by (simp add: validate_file_paths_def)

text \<open>The loop stops at the first field, in the order of the list, that \<open>int\<close> rejects.\<close>

lemma experience_loop_find:
  "validate_experience_loop h fs c =
     (case find (\<lambda>(f, g). int_of h (g c) = None) fs of
        None \<Rightarrow> Inr ()
      | Some (f, g) \<Rightarrow>
          Inl (ValueError (''Experience field '' @ f @ '' must be numeric, got: '' @ g c)))"
  by (induction fs) (auto split: option.splits)

text \<open>
  Claim C7, as amended. When \<open>int\<close> raises \<open>ValueError\<close> on the value of some
  experience field, the construction of the \<open>BotConfig\<close> raises an error. When
  moreover the five required fields are not empty and the resume path is an
  existing file (the two validations that run first), the error is the
  \<open>ValueError\<close> whose message names the first experience field, in the order of
  the source's list, that \<open>int\<close> rejects, and quotes its value.
\<close>

theorem non_numeric_experience_fails:
  assumes "(field, get) \<in> set experience_fields" and "int_of h (get c) = None"
  shows "(\<exists>e. post_init h c = Inl e)
       \<and> (\<exists>f g. find (\<lambda>(f, g). int_of h (g c) = None) experience_fields = Some (f, g)
           \<and> int_of h (g c) = None
           \<and> (phone c \<noteq> [] \<and> address c \<noteq> [] \<and> city c \<noteq> [] \<and> postal c \<noteq> []
                \<and> state c \<noteq> [] \<and> path_exists h (resume_path c)
                \<and> path_is_file h (resume_path c)
              \<longrightarrow> post_init h c
                    = Inl (ValueError
                        (''Experience field '' @ f @ '' must be numeric, got: '' @ g c))))"
proof -
  have "find (\<lambda>(f, g). int_of h (g c) = None) experience_fields \<noteq> None"
    using assms by (auto simp: find_None_iff)
  then obtain f g where
    found: "find (\<lambda>(f, g). int_of h (g c) = None) experience_fields = Some (f, g)"
    by (cases "find (\<lambda>(f, g). int_of h (g c) = None) experience_fields") auto
  have g: "int_of h (g c) = None"
    using found by (auto simp: find_Some_iff)
  have r: "validate_experience_values h c
             = Inl (ValueError (''Experience field '' @ f @ '' must be numeric, got: '' @ g c))"
    unfolding validate_experience_values_def experience_loop_find found by simp
  have 1: "\<exists>e. post_init h c = Inl e"
    using r by (simp add: post_init_def split: sum.splits)
  have 2: "post_init h c
      = Inl (ValueError (''Experience field '' @ f @ '' must be numeric, got: '' @ g c))"
    if "validate_required_fields c = Inr ()" "validate_file_paths h c = Inr ()"
    using that r by (simp add: post_init_def)
  have 3: "phone c \<noteq> [] \<and> address c \<noteq> [] \<and> city c \<noteq> [] \<and> postal c \<noteq> []
                \<and> state c \<noteq> [] \<and> path_exists h (resume_path c)
                \<and> path_is_file h (resume_path c)
              \<longrightarrow> post_init h c
                    = Inl (ValueError
                        (''Experience field '' @ f @ '' must be numeric, got: '' @ g c))"
    using 2 unfolding required_ok files_ok by simp
  show ?thesis
    apply (rule conjI)
     apply (rule 1)
    apply (rule exI [of _ f])
    apply (rule exI [of _ g])
    using found g 3 apply simp
    done
qed

text \<open>
  A configuration whose \<open>java_exp\<close> is the word \<open>two\<close>, on a host where the
  resume file exists: the construction fails, with the message for \<open>java_exp\<close>.
\<close>

theorem non_numeric_experience_fails_witness:
  "(''java_exp'', java_exp) \<in> set experience_fields
   \<and> int_of (example_host True []) (java_exp (example_config\<lparr>java_exp := ''two''\<rparr>)) = None
   \<and> (\<exists>e. post_init (example_host True []) (example_config\<lparr>java_exp := ''two''\<rparr>) = Inl e)
   \<and> post_init (example_host True []) (example_config\<lparr>java_exp := ''two''\<rparr>)
       = Inl (ValueError ''Experience field java_exp must be numeric, got: two'')"
proof -
  have 1: "(''java_exp'', java_exp) \<in> set experience_fields"
    by (simp add: experience_fields_def)
  have 2: "int_of (example_host True []) (java_exp (example_config\<lparr>java_exp := ''two''\<rparr>))
      = None"
    by code_simp
  have 3: "post_init (example_host True []) (example_config\<lparr>java_exp := ''two''\<rparr>)
       = Inl (ValueError ''Experience field java_exp must be numeric, got: two'')"
    by code_simp
  note 4 = non_numeric_experience_fails [OF 1 2, THEN conjunct1]
  show ?thesis
    apply (rule conjI, rule 1)
    apply (rule conjI, rule 2)
    apply (rule conjI, rule 4)
    apply (rule 3)
    done
qed

text \<open>
  Claim C7 as stated fails where an earlier validation raises first. Here
  \<open>python_exp\<close> is the word \<open>five\<close>, which \<open>int\<close> rejects, and the resume file
  does not exist: the error is the \<open>FileNotFoundError\<close> of the path validation,
  and its message does not name the experience field.
\<close>

theorem non_numeric_experience_other_message:
  "int_of (example_host False []) (python_exp (example_config\<lparr>python_exp := ''five''\<rparr>)) = None
   \<and> post_init (example_host False []) (example_config\<lparr>python_exp := ''five''\<rparr>)
       = Inl (FileNotFoundError ''Resume file not found: /home/user/resume.pdf'')
   \<and> \<not> py_in ''python_exp'' ''Resume file not found: /home/user/resume.pdf''"
  by code_simp

section \<open>Properties of the rate limiter\<close>

text \<open>
  Claim C4, as amended. With at most 2 requests per 10 seconds and both earlier
  time stamps still inside the window (as the method's own test finds them),
  the third call sleeps for the duration the code computes as
  \<open>time_window - (now - window_start) + 1\<close>, where \<open>window_start\<close> is the oldest
  time stamp kept: the rest of that window and one second more. The time stamp
  of the call is recorded as well. This holds whatever the float arithmetic is.
  With time stamps that are whole seconds, where the arithmetic is exact, the
  sleep ends exactly at \<open>window_start\<close> plus 11 seconds.
\<close>

theorem third_request_sleeps:
  assumes "max_requests rl = 2" and "time_window rl = 10" and "requests rl = [t1, t2]"
    and "float_less_int ar (float_sub ar now t1) 10"
    and "float_less_int ar (float_sub ar now t2) 10"
  shows "wait_if_needed ar now rl
           = (Inr (Some (float_add_int ar (int_sub_float ar 10 (float_sub ar now t1)) 1)),
              rl\<lparr>requests := [t1, t2, now]\<rparr>)
       \<and> (n - s1 < 10 \<and> n - s2 < 10
          \<longrightarrow> wait_if_needed whole_seconds n
                  \<lparr>max_requests = 2, time_window = 10, requests = [s1, s2]\<rparr>
                = (Inr (Some (10 - (n - s1) + 1)),
                   \<lparr>max_requests = 2, time_window = 10, requests = [s1, s2, n]\<rparr>)
              \<and> n + (10 - (n - s1) + 1) = s1 + 11)"
proof -
  have 1: "wait_if_needed ar now rl
           = (Inr (Some (float_add_int ar (int_sub_float ar 10 (float_sub ar now t1)) 1)),
              rl\<lparr>requests := [t1, t2, now]\<rparr>)"
    using assms by (simp add: wait_if_needed_def)
  have 2: "n - s1 < 10 \<and> n - s2 < 10
          \<longrightarrow> wait_if_needed whole_seconds n
                  \<lparr>max_requests = 2, time_window = 10, requests = [s1, s2]\<rparr>
                = (Inr (Some (10 - (n - s1) + 1)),
                   \<lparr>max_requests = 2, time_window = 10, requests = [s1, s2, n]\<rparr>)
              \<and> n + (10 - (n - s1) + 1) = s1 + 11"
    by (simp add: wait_if_needed_def whole_seconds_def)
  from 1 2 show ?thesis by (rule conjI)
qed

text \<open>
  Requests at seconds 0 and 1, a third at second 2: nine seconds of sleep,
  which end at second 11.
\<close>

theorem third_request_sleeps_witness:
  "float_less_int whole_seconds (float_sub whole_seconds 2 0) 10
   \<and> float_less_int whole_seconds (float_sub whole_seconds 2 1) 10
   \<and> wait_if_needed whole_seconds 2 \<lparr>max_requests = 2, time_window = 10, requests = [0, 1]\<rparr>
     = (Inr (Some 9), \<lparr>max_requests = 2, time_window = 10, requests = [0, 1, 2]\<rparr>)
   \<and> (2::int) + 9 = 0 + 11"
proof -
  have 1: "float_less_int whole_seconds (float_sub whole_seconds 2 0) 10"
    by (simp add: whole_seconds_def)
  have 2: "float_less_int whole_seconds (float_sub whole_seconds 2 1) 10"
    by (simp add: whole_seconds_def)
  have 3: "float_add_int whole_seconds (int_sub_float whole_seconds 10 (float_sub whole_seconds 2 0)) 1
      = 9"
    by (simp add: whole_seconds_def)
  have "wait_if_needed whole_seconds 2 \<lparr>max_requests = 2, time_window = 10, requests = [0, 1]\<rparr>
     = (Inr (Some 9), \<lparr>max_requests = 2, time_window = 10, requests = [0, 1, 2]\<rparr>)"
    using third_request_sleeps
      [of "\<lparr>max_requests = 2, time_window = 10, requests = [0, 1]\<rparr>" 0 1 whole_seconds 2,
       OF _ _ _ 1 2, THEN conjunct1]
    unfolding 3 by simp
  with 1 2 show ?thesis by simp
qed

text \<open>
  Claim C4 as stated fails on the same input: the sleep of the third call does
  not end at the start of the window plus 10 seconds, but a second later.
\<close>

theorem third_request_wakes_late:
  "wait_if_needed whole_seconds 2 \<lparr>max_requests = 2, time_window = 10, requests = [0, 1]\<rparr>
     = (Inr (Some 9), \<lparr>max_requests = 2, time_window = 10, requests = [0, 1, 2]\<rparr>)
   \<and> (2::int) + 9 \<noteq> 0 + 10"
  by (simp add: wait_if_needed_def whole_seconds_def)

section \<open>Properties of the click helper\<close>

lemma attempt_later: "i \<noteq> 0 \<Longrightarrow> attempt drv i strategy w = strategy w"
  by (simp add: attempt_def before_click_def)

lemma safe_click_unfold:
  "safe_click drv (Some e) w =
     (case attempt drv 0 (click drv e) w of
        (None, w1) \<Rightarrow> (True, human_delay drv 0.5 1.5 w1)
      | (Some x1, w1) \<Rightarrow>
          (case script_click drv e (after_failed_click drv 0 3 x1 w1) of
             (None, w2) \<Rightarrow> (True, human_delay drv 0.5 1.5 w2)
           | (Some x2, w2) \<Rightarrow>
               (case chain_click drv e (after_failed_click drv 1 3 x2 w2) of
                  (None, w3) \<Rightarrow> (True, human_delay drv 0.5 1.5 w3)
                | (Some x3, w3) \<Rightarrow> (False, after_failed_click drv 2 3 x3 w3))))"
proof -
  have len: "length (strategies drv e) = 3"
    by (simp add: strategies_def)
  have enum: "enumerate 0 (strategies drv e)
      = [(0, click drv e), (1, script_click drv e), (2, chain_click drv e)]"
    by (simp add: strategies_def numeral_2_eq_2)
  have a1: "attempt drv 1 s v = s v" for s v
    by (simp add: attempt_later)
  have a2: "attempt drv 2 s v = s v" for s v
    by (simp add: attempt_later)
  show ?thesis
    apply (simp only: safe_click_def option.case)
    apply (simp only: len enum)
    apply (simp only: safe_click_loop.simps a1 a2)
    done
qed

text \<open>
  Claim C6, as amended. Given an element, \<open>safe_click\<close> tries the direct click
  (after the simulated scrolling, whose exception counts as the failure of this
  attempt), then the click dispatched by script, then the move-then-click, each
  only when the one before raised. It returns \<open>True\<close> as soon as a strategy does
  not raise, and \<open>False\<close> exactly when all three raise, whatever the exceptions
  are. In particular, when the direct click raises click-intercepted and the
  script-dispatched click succeeds, the result is \<open>True\<close>.
\<close>

theorem safe_click_falls_through:
  "(attempt drv 0 (click drv e) w = (None, w1)
      \<longrightarrow> safe_click drv (Some e) w = (True, human_delay drv 0.5 1.5 w1))
   \<and> (attempt drv 0 (click drv e) w = (Some x1, w1)
        \<and> script_click drv e (after_failed_click drv 0 3 x1 w1) = (None, w2)
      \<longrightarrow> safe_click drv (Some e) w = (True, human_delay drv 0.5 1.5 w2))
   \<and> (attempt drv 0 (click drv e) w = (Some x1, w1)
        \<and> script_click drv e (after_failed_click drv 0 3 x1 w1) = (Some x2, w2)
        \<and> chain_click drv e (after_failed_click drv 1 3 x2 w2) = (None, w3)
      \<longrightarrow> safe_click drv (Some e) w = (True, human_delay drv 0.5 1.5 w3))
   \<and> (attempt drv 0 (click drv e) w = (Some x1, w1)
        \<and> script_click drv e (after_failed_click drv 0 3 x1 w1) = (Some x2, w2)
        \<and> chain_click drv e (after_failed_click drv 1 3 x2 w2) = (Some x3, w3)
      \<longrightarrow> safe_click drv (Some e) w = (False, after_failed_click drv 2 3 x3 w3))
   \<and> (\<not> fst (safe_click drv (Some e) w)
      \<longleftrightarrow> (\<exists>y1 v1 y2 v2 y3 v3.
             attempt drv 0 (click drv e) w = (Some y1, v1)
           \<and> script_click drv e (after_failed_click drv 0 3 y1 v1) = (Some y2, v2)
           \<and> chain_click drv e (after_failed_click drv 1 3 y2 v2) = (Some y3, v3)))"
  unfolding safe_click_unfold
  by (auto split: prod.splits option.splits)

text \<open>
  The direct click on the button is intercepted, the click by script works:
  \<open>safe_click\<close> has tried both, in this order, and returns \<open>True\<close>.
\<close>

theorem safe_click_falls_through_witness:
  "attempt (fixture_browser intercepted_button_page) 0
       (click (fixture_browser intercepted_button_page) ''continue'') []
     = (Some ElementClickInterceptedException, [''click continue''])
   \<and> script_click (fixture_browser intercepted_button_page) ''continue''
       (after_failed_click (fixture_browser intercepted_button_page) 0 3
          ElementClickInterceptedException [''click continue''])
     = (None, [''click continue'', ''script click continue''])
   \<and> safe_click (fixture_browser intercepted_button_page) (Some ''continue'') []
     = (True, human_delay (fixture_browser intercepted_button_page) 0.5 1.5
                [''click continue'', ''script click continue''])"
proof -
  have 1: "attempt (fixture_browser intercepted_button_page) 0
       (click (fixture_browser intercepted_button_page) ''continue'') []
     = (Some ElementClickInterceptedException, [''click continue''])"
    by code_simp
  have 2: "script_click (fixture_browser intercepted_button_page) ''continue''
       (after_failed_click (fixture_browser intercepted_button_page) 0 3
          ElementClickInterceptedException [''click continue''])
     = (None, [''click continue'', ''script click continue''])"
    by code_simp
  from safe_click_falls_through [THEN conjunct2, THEN conjunct1, THEN mp, OF conjI, OF 1 2]
  have 3: "safe_click (fixture_browser intercepted_button_page) (Some ''continue'') []
     = (True, human_delay (fixture_browser intercepted_button_page) 0.5 1.5
                [''click continue'', ''script click continue''])" .
  show ?thesis
    apply (rule conjI, rule 1)
    apply (rule conjI, rule 2)
    apply (rule 3)
    done
qed

text \<open>
  Claim C6 as stated fails on other exceptions. Every strategy raises a general
  driver error, neither click-intercepted nor stale-element: \<open>safe_click\<close> has
  tried the three strategies and returns \<open>False\<close>.
\<close>

theorem safe_click_fails_on_other_errors:
  "safe_click (fixture_browser broken_button_page) (Some ''continue'') []
     = (False, [''click continue'', ''script click continue'', ''move to and click continue''])
   \<and> click (fixture_browser broken_button_page) ''continue'' []
     = (Some WebDriverException, [''click continue''])
   \<and> WebDriverException \<noteq> ElementClickInterceptedException
   \<and> WebDriverException \<noteq> StaleElementReferenceException"
  by code_simp

section \<open>Properties of the page classifier\<close>

text \<open>
  Claim C2. Let the heading loop locate a title, the stripped text of the
  heading element. If its lower-cased text contains an upload keyword, the page
  type is \<open>upload\<close>; otherwise, if it contains a contact keyword, \<open>contact\<close>;
  otherwise, if it contains a questions keyword, \<open>questions\<close>; otherwise, if it
  contains a review keyword, \<open>review\<close>. The first of the four sets with a match
  decides, and the title is returned with it. Whether a set matches is the same
  for the title and for the text \<open>t\<close> of the element before stripping.
\<close>

theorem heading_decides_page_type:
  assumes "locate_title drv title_selectors w = (Inr title, w1)"
  shows "(any_in upload_keywords (lower title)
            \<longrightarrow> detect_page_type drv w = (Inr \<lparr>page_type = ''upload'', page_title = title\<rparr>, w1))
       \<and> (\<not> any_in upload_keywords (lower title) \<and> any_in contact_keywords (lower title)
            \<longrightarrow> detect_page_type drv w = (Inr \<lparr>page_type = ''contact'', page_title = title\<rparr>, w1))
       \<and> (\<not> any_in upload_keywords (lower title) \<and> \<not> any_in contact_keywords (lower title)
            \<and> any_in questions_keywords (lower title)
            \<longrightarrow> detect_page_type drv w
                  = (Inr \<lparr>page_type = ''questions'', page_title = title\<rparr>, w1))
       \<and> (\<not> any_in upload_keywords (lower title) \<and> \<not> any_in contact_keywords (lower title)
            \<and> \<not> any_in questions_keywords (lower title) \<and> any_in review_keywords (lower title)
            \<longrightarrow> detect_page_type drv w = (Inr \<lparr>page_type = ''review'', page_title = title\<rparr>, w1))
       \<and> (title = strip t
            \<longrightarrow> any_in upload_keywords (lower title) = any_in upload_keywords (lower t)
              \<and> any_in contact_keywords (lower title) = any_in contact_keywords (lower t)
              \<and> any_in questions_keywords (lower title) = any_in questions_keywords (lower t)
              \<and> any_in review_keywords (lower title) = any_in review_keywords (lower t))"
proof -
  have types: "(any_in upload_keywords (lower title)
            \<longrightarrow> detect_page_type drv w = (Inr \<lparr>page_type = ''upload'', page_title = title\<rparr>, w1))
       \<and> (\<not> any_in upload_keywords (lower title) \<and> any_in contact_keywords (lower title)
            \<longrightarrow> detect_page_type drv w = (Inr \<lparr>page_type = ''contact'', page_title = title\<rparr>, w1))
       \<and> (\<not> any_in upload_keywords (lower title) \<and> \<not> any_in contact_keywords (lower title)
            \<and> any_in questions_keywords (lower title)
            \<longrightarrow> detect_page_type drv w
                  = (Inr \<lparr>page_type = ''questions'', page_title = title\<rparr>, w1))
       \<and> (\<not> any_in upload_keywords (lower title) \<and> \<not> any_in contact_keywords (lower title)
            \<and> \<not> any_in questions_keywords (lower title) \<and> any_in review_keywords (lower title)
            \<longrightarrow> detect_page_type drv w = (Inr \<lparr>page_type = ''review'', page_title = title\<rparr>, w1))"
    using assms by (simp add: detect_page_type_def Let_def)
  have raw: "title = strip t
            \<longrightarrow> any_in upload_keywords (lower title) = any_in upload_keywords (lower t)
              \<and> any_in contact_keywords (lower title) = any_in contact_keywords (lower t)
              \<and> any_in questions_keywords (lower title) = any_in questions_keywords (lower t)
              \<and> any_in review_keywords (lower title) = any_in review_keywords (lower t)"
    by (simp add: strip_keeps_keywords keywords_solid)
  from types raw show ?thesis
    apply (elim conjE)
    apply (intro conjI)
        apply assumption+
    done
qed

text \<open>The page with the heading ``Upload your resume'' is an upload page.\<close>

theorem heading_decides_page_type_witness:
  "locate_title (fixture_browser upload_heading_page) title_selectors []
     = (Inr ''Upload your resume'', [])
   \<and> any_in upload_keywords (lower ''Upload your resume'')
   \<and> detect_page_type (fixture_browser upload_heading_page) []
     = (Inr \<lparr>page_type = ''upload'', page_title = ''Upload your resume''\<rparr>, [])"
proof -
  have 1: "locate_title (fixture_browser upload_heading_page) title_selectors []
     = (Inr ''Upload your resume'', [])"
    by code_simp
  have 2: "any_in upload_keywords (lower ''Upload your resume'')"
    by code_simp
  from heading_decides_page_type [OF 1, THEN conjunct1] 2
  have 3: "detect_page_type (fixture_browser upload_heading_page) []
     = (Inr \<lparr>page_type = ''upload'', page_title = ''Upload your resume''\<rparr>, [])"
    by (rule mp)
  show ?thesis
    apply (rule conjI, rule 1)
    apply (rule conjI, rule 2)
    apply (rule 3)
    done
qed

text \<open>
  Claim C3. Let the heading loop end with an empty title (no heading found) or
  with a title that matches none of the four keyword sets. Then the probes
  decide, in order: a file input gives \<open>upload\<close>; with none, a questions
  container gives \<open>questions\<close>; with none of both, an input named for phone or
  e-mail gives \<open>contact\<close>; with none of the three, the type is \<open>unknown\<close>.
\<close>

theorem structure_decides_page_type:
  assumes "locate_title drv title_selectors w = (Inr title, w1)"
    and "title = [] \<or> \<not> (any_in upload_keywords (lower title)
           \<or> any_in contact_keywords (lower title)
           \<or> any_in questions_keywords (lower title)
           \<or> any_in review_keywords (lower title))"
  shows "(find_elements drv CSS_SELECTOR ''input[type=\"file\"]'' w1 = Inr (x # xs)
            \<longrightarrow> detect_page_type drv w = (Inr \<lparr>page_type = ''upload'', page_title = title\<rparr>, w1))
       \<and> (find_elements drv CSS_SELECTOR ''input[type=\"file\"]'' w1 = Inr []
            \<and> find_elements drv CSS_SELECTOR ''.ia-Questions-item'' w1 = Inr (y # ys)
            \<longrightarrow> detect_page_type drv w
                  = (Inr \<lparr>page_type = ''questions'', page_title = title\<rparr>, w1))
       \<and> (find_elements drv CSS_SELECTOR ''input[type=\"file\"]'' w1 = Inr []
            \<and> find_elements drv CSS_SELECTOR ''.ia-Questions-item'' w1 = Inr []
            \<and> find_elements drv CSS_SELECTOR
                 ''input[name*=\"phone\"], input[name*=\"email\"]'' w1 = Inr (z # zs)
            \<longrightarrow> detect_page_type drv w = (Inr \<lparr>page_type = ''contact'', page_title = title\<rparr>, w1))
       \<and> (find_elements drv CSS_SELECTOR ''input[type=\"file\"]'' w1 = Inr []
            \<and> find_elements drv CSS_SELECTOR ''.ia-Questions-item'' w1 = Inr []
            \<and> find_elements drv CSS_SELECTOR
                 ''input[name*=\"phone\"], input[name*=\"email\"]'' w1 = Inr []
            \<longrightarrow> detect_page_type drv w = (Inr \<lparr>page_type = ''unknown'', page_title = title\<rparr>, w1))"
proof -
  have empty: "\<not> any_in ks (lower [])" if "[] \<notin> set ks" for ks
    using that by (induction ks) (auto simp: any_in_def lower_def)
  have none: "\<not> any_in upload_keywords (lower title)" "\<not> any_in contact_keywords (lower title)"
    "\<not> any_in questions_keywords (lower title)" "\<not> any_in review_keywords (lower title)"
    using assms(2) empty [of upload_keywords] empty [of contact_keywords]
      empty [of questions_keywords] empty [of review_keywords]
    by (auto simp: upload_keywords_def contact_keywords_def questions_keywords_def
        review_keywords_def)
  show ?thesis
    using assms(1) none by (simp add: detect_page_type_def Let_def probe_page_def)
qed

text \<open>The page with no heading and a file input is an upload page.\<close>

theorem structure_decides_page_type_witness:
  "locate_title (fixture_browser file_input_page) title_selectors [] = (Inr [], [])
   \<and> find_elements (fixture_browser file_input_page) CSS_SELECTOR ''input[type=\"file\"]'' []
       = Inr [''file input'']
   \<and> detect_page_type (fixture_browser file_input_page) []
       = (Inr \<lparr>page_type = ''upload'', page_title = []\<rparr>, [])"
proof -
  have 1: "locate_title (fixture_browser file_input_page) title_selectors [] = (Inr [], [])"
    by code_simp
  have 2: "find_elements (fixture_browser file_input_page) CSS_SELECTOR ''input[type=\"file\"]'' []
       = Inr [''file input'']"
    by code_simp
  have 3: "[] = [] \<or> \<not> (any_in upload_keywords (lower [])
           \<or> any_in contact_keywords (lower [])
           \<or> any_in questions_keywords (lower [])
           \<or> any_in review_keywords (lower []))"
    by simp
  from structure_decides_page_type [OF 1 3, THEN conjunct1] 2
  have 4: "detect_page_type (fixture_browser file_input_page) []
       = (Inr \<lparr>page_type = ''upload'', page_title = []\<rparr>, [])"
    by (rule mp)
  show ?thesis
    apply (rule conjI, rule 1)
    apply (rule conjI, rule 2)
    apply (rule 4)
    done
qed

section \<open>Properties of the workflow driver\<close>








section \<open>Properties of the contact handler\<close>

lemma fill_guard:
  assumes "fill_contact_field drv selector v w \<noteq> (False, w)"
  shows "v \<noteq> [] \<and> (\<exists>field current.
            find_element drv CSS_SELECTOR selector w = Inr field
          \<and> is_enabled drv field w = Inr True
          \<and> get_attribute drv field ''value'' w = Inr current
          \<and> \<not> truthy current)"
  using assms
  by (auto simp: fill_contact_field_def split: sum.splits if_splits prod.splits option.splits)

lemma fill_written:
  assumes "fst (fill_contact_field drv selector v w)"
  shows "\<exists>field w1. find_element drv CSS_SELECTOR selector w = Inr field
          \<and> clear drv field w = (None, w1)
          \<and> fst (send_keys drv field v w1) = None
          \<and> fill_contact_field drv selector v w = (True, snd (send_keys drv field v w1))"
  using assms
  by (auto simp: fill_contact_field_def split: sum.splits if_splits prod.splits option.splits)

lemma contact_loop_count:
  "0 < fst (contact_loop drv fs n w) \<longleftrightarrow>
     0 < n \<or> (\<exists>((selector, v), wi) \<in> set (zip fs (contact_states drv fs w)).
                 fst (fill_contact_field drv selector v wi))"
proof (induction fs arbitrary: n w)
  case Nil
  then show ?case by simp
next
  case (Cons a fs)
  obtain selector v where a: "a = (selector, v)" by (cases a)
  obtain filled w1 where f: "fill_contact_field drv selector v w = (filled, w1)"
    by (cases "fill_contact_field drv selector v w")
  show ?case
    unfolding a using f Cons.IH [of "if filled then n + 1 else n" w1]
    by auto
qed

lemma fill_filled_iff:
  "fst (fill_contact_field drv selector v w) \<longleftrightarrow>
     v \<noteq> [] \<and> (\<exists>field current w1.
        find_element drv CSS_SELECTOR selector w = Inr field
      \<and> is_enabled drv field w = Inr True
      \<and> get_attribute drv field ''value'' w = Inr current
      \<and> \<not> truthy current
      \<and> clear drv field w = (None, w1)
      \<and> fst (send_keys drv field v w1) = None)"
  by (auto simp: fill_contact_field_def split: sum.splits if_splits prod.splits option.splits)

text \<open>
  Claim C8. For one contact field, in the browser state in which the loop meets
  it: when the handler does anything to the browser or counts the field as
  filled, the profile value is not empty, the field was found and is enabled,
  and its current value is empty. Under that guard the field is cleared; it
  is counted as filled when clearing it and typing the profile value both
  return, and not counted when either raises. The handler returns \<open>True\<close> if
  and only if at least one of its fields, each met in the state its
  predecessors left, was filled in this sense: found, enabled, empty, cleared
  and typed into without an exception.
\<close>

theorem contact_fields_filled_when_empty:
  "(fill_contact_field drv selector v w \<noteq> (False, w)
      \<longrightarrow> v \<noteq> [] \<and> (\<exists>field current.
            find_element drv CSS_SELECTOR selector w = Inr field
          \<and> is_enabled drv field w = Inr True
          \<and> get_attribute drv field ''value'' w = Inr current
          \<and> \<not> truthy current))
   \<and> (fst (fill_contact_field drv selector v w)
      \<longrightarrow> (\<exists>field w1. find_element drv CSS_SELECTOR selector w = Inr field
          \<and> clear drv field w = (None, w1)
          \<and> fst (send_keys drv field v w1) = None
          \<and> fill_contact_field drv selector v w = (True, snd (send_keys drv field v w1))))
   \<and> (fst (handle_contact_page drv config w)
      \<longleftrightarrow> (\<exists>((selector, v), wi)
              \<in> set (zip (contact_fields config)
                        (contact_states drv (contact_fields config) w)).
             fst (fill_contact_field drv selector v wi)))
   \<and> (v \<noteq> [] \<and> find_element drv CSS_SELECTOR selector w = Inr field
        \<and> is_enabled drv field w = Inr True
        \<and> get_attribute drv field ''value'' w = Inr current \<and> \<not> truthy current
      \<longrightarrow> (clear drv field w = (Some ex, w1)
             \<longrightarrow> fill_contact_field drv selector v w = (False, w1))
        \<and> (clear drv field w = (None, w1) \<and> send_keys drv field v w1 = (Some ex, w2)
             \<longrightarrow> fill_contact_field drv selector v w = (False, w2))
        \<and> (clear drv field w = (None, w1) \<and> send_keys drv field v w1 = (None, w2)
             \<longrightarrow> fill_contact_field drv selector v w = (True, w2)))
   \<and> (fst (handle_contact_page drv config w)
      \<longleftrightarrow> (\<exists>((selector, v), wi)
              \<in> set (zip (contact_fields config)
                        (contact_states drv (contact_fields config) w)).
             v \<noteq> [] \<and> (\<exists>field current w1.
                find_element drv CSS_SELECTOR selector wi = Inr field
              \<and> is_enabled drv field wi = Inr True
              \<and> get_attribute drv field ''value'' wi = Inr current
              \<and> \<not> truthy current
              \<and> clear drv field wi = (None, w1)
              \<and> fst (send_keys drv field v w1) = None)))"
proof -
  have 3: "fst (handle_contact_page drv config w)
      \<longleftrightarrow> (\<exists>((selector, v), wi)
              \<in> set (zip (contact_fields config)
                        (contact_states drv (contact_fields config) w)).
             fst (fill_contact_field drv selector v wi))"
  proof -
    obtain n w1 where loop: "contact_loop drv (contact_fields config) 0 w = (n, w1)"
      by (cases "contact_loop drv (contact_fields config) 0 w")
    have "fst (handle_contact_page drv config w) \<longleftrightarrow> 0 < n"
      by (simp add: handle_contact_page_def loop)
    with contact_loop_count [of drv "contact_fields config" 0 w] loop
    show ?thesis by simp
  qed
  have 4: "(clear drv field w = (Some ex, w1)
             \<longrightarrow> fill_contact_field drv selector v w = (False, w1))
        \<and> (clear drv field w = (None, w1) \<and> send_keys drv field v w1 = (Some ex, w2)
             \<longrightarrow> fill_contact_field drv selector v w = (False, w2))
        \<and> (clear drv field w = (None, w1) \<and> send_keys drv field v w1 = (None, w2)
             \<longrightarrow> fill_contact_field drv selector v w = (True, w2))"
    if "v \<noteq> []" "find_element drv CSS_SELECTOR selector w = Inr field"
      "is_enabled drv field w = Inr True" "get_attribute drv field ''value'' w = Inr current"
      "\<not> truthy current"
    using that by (simp add: fill_contact_field_def)
  have 5: "fst (handle_contact_page drv config w)
      \<longleftrightarrow> (\<exists>((selector, v), wi)
              \<in> set (zip (contact_fields config)
                        (contact_states drv (contact_fields config) w)).
             v \<noteq> [] \<and> (\<exists>field current w1.
                find_element drv CSS_SELECTOR selector wi = Inr field
              \<and> is_enabled drv field wi = Inr True
              \<and> get_attribute drv field ''value'' wi = Inr current
              \<and> \<not> truthy current
              \<and> clear drv field wi = (None, w1)
              \<and> fst (send_keys drv field v w1) = None))"
    unfolding 3 by (simp only: fill_filled_iff)
  show ?thesis
    apply (rule conjI)
     apply (rule impI, erule fill_guard)
    apply (rule conjI)
     apply (rule impI, erule fill_written)
    apply (rule conjI)
     apply (rule 3)
    apply (rule conjI)
     apply (rule impI, (erule conjE)+, erule (4) 4)
    apply (rule 5)
    done
qed

text \<open>
  On the contact page the empty phone input is filled and the city input,
  which holds a value, is left alone; the handler returns \<open>True\<close>.
\<close>

theorem contact_fields_filled_when_empty_witness:
  "find_element (fixture_browser contact_page) CSS_SELECTOR ''input[name*=\"phone\"]'' []
     = Inr ''phone input''
   \<and> is_enabled (fixture_browser contact_page) ''phone input'' [] = Inr True
   \<and> get_attribute (fixture_browser contact_page) ''phone input'' ''value'' [] = Inr None
   \<and> clear (fixture_browser contact_page) ''phone input'' [] = (None, [''clear phone input''])
   \<and> send_keys (fixture_browser contact_page) ''phone input'' ''555 0100''
         [''clear phone input'']
     = (None, [''clear phone input'', ''type 555 0100 into phone input''])
   \<and> fill_contact_field (fixture_browser contact_page) ''input[name*=\"phone\"]'' ''555 0100'' []
     = (True, [''clear phone input'', ''type 555 0100 into phone input''])
   \<and> fill_contact_field (fixture_browser contact_page) ''input[name*=\"city\"]'' ''Springfield''
         [''clear phone input'', ''type 555 0100 into phone input'']
     = (False, [''clear phone input'', ''type 555 0100 into phone input''])
   \<and> handle_contact_page (fixture_browser contact_page) example_config []
     = (True, [''clear phone input'', ''type 555 0100 into phone input''])"
proof -
  have 1: "find_element (fixture_browser contact_page) CSS_SELECTOR ''input[name*=\"phone\"]'' []
     = Inr ''phone input''"
    by code_simp
  have 2: "is_enabled (fixture_browser contact_page) ''phone input'' [] = Inr True"
    by code_simp
  have 3: "get_attribute (fixture_browser contact_page) ''phone input'' ''value'' [] = Inr None"
    by code_simp
  have 4: "clear (fixture_browser contact_page) ''phone input'' [] = (None, [''clear phone input''])"
    by code_simp
  have 5: "send_keys (fixture_browser contact_page) ''phone input'' ''555 0100''
         [''clear phone input'']
     = (None, [''clear phone input'', ''type 555 0100 into phone input''])"
    by code_simp
  have g: "''555 0100'' \<noteq> []
     \<and> find_element (fixture_browser contact_page) CSS_SELECTOR ''input[name*=\"phone\"]'' []
         = Inr ''phone input''
     \<and> is_enabled (fixture_browser contact_page) ''phone input'' [] = Inr True
     \<and> get_attribute (fixture_browser contact_page) ''phone input'' ''value'' [] = Inr None
     \<and> \<not> truthy None"
    using 1 2 3 by (simp add: truthy_def)
  note typed = contact_fields_filled_when_empty
    [THEN conjunct2, THEN conjunct2, THEN conjunct2, THEN conjunct1, THEN mp, OF g,
     THEN conjunct2, THEN conjunct2, THEN mp, OF conjI, OF 4 5]
  have 6: "fill_contact_field (fixture_browser contact_page) ''input[name*=\"city\"]'' ''Springfield''
         [''clear phone input'', ''type 555 0100 into phone input'']
     = (False, [''clear phone input'', ''type 555 0100 into phone input''])"
    by code_simp
  have 7: "handle_contact_page (fixture_browser contact_page) example_config []
     = (True, [''clear phone input'', ''type 555 0100 into phone input''])"
    by code_simp
  show ?thesis
    apply (rule conjI, rule 1)
    apply (rule conjI, rule 2)
    apply (rule conjI, rule 3)
    apply (rule conjI, rule 4)
    apply (rule conjI, rule 5)
    apply (rule conjI, rule typed)
    apply (rule conjI, rule 6)
    apply (rule 7)
    done
qed

section \<open>Properties of the advance step\<close>










end
